theory Spec2Isabelle
  imports Complex_Main
begin

section \<open>Values and records of the session store\<close>

text \<open>
  The store of \<^verbatim>\<open>frontend/src/contexts/SessionContext.js\<close> is a React reducer over one
  state object. \<^verbatim>\<open>null\<close> in a slot that otherwise holds a record or a string is \<open>None\<close>.
  A number inside a \<open>jsvalue\<close> is the decimal value of the JSON literal; the double it
  denotes is \<open>double\<close> of it (below).
\<close>

datatype jsvalue =
    JNull
  | JBool bool
  | JNum rat
  | JStr string
  | JArr "jsvalue list"
  | JObj "(string \<times> jsvalue) list"

text \<open>A Session as the REST collaborator returns it (the fields the components read).\<close>

record session =
  session_id :: string
  sport :: string
  name :: string
  description :: string
  target_actions :: nat
  created_at :: string
  is_active :: bool
  total_actions :: nat
  successful_actions :: nat
  average_confidence :: rat

section \<open>Numbers\<close>

text \<open>
  A JavaScript number is an IEEE 754 double: \<open>Num x\<close> is the finite double of value \<open>x\<close>
  (the two zeros are one), besides the infinities and NaN. \<open>double x\<close> rounds a rational
  to the nearest double, ties to the even significand: 53 significant bits, the smallest
  step \<open>2 powi - 1074\<close>, and infinity from \<open>2 powi 1024\<close> on. The operations round the
  exact result.
\<close>

datatype jsnum = Num rat | PosInfinity | NegInfinity | NaN

text \<open>The number of binary digits of a natural number.\<close>

function bits :: "nat \<Rightarrow> nat" where
  "bits n = (if n = 0 then 0 else Suc (bits (n div 2)))"
  by pat_completeness auto
termination
  by (relation "measure id") auto

declare bits.simps [simp del]

text \<open>For \<open>a > 0\<close>: the \<open>e\<close> with \<open>2 powi e \<le> a < 2 powi (e + 1)\<close>.\<close>

definition exponent :: "rat \<Rightarrow> int" where
  "exponent a =
     (if 1 \<le> a then int (bits (nat \<lfloor>a\<rfloor>)) - 1
      else - int (bits (nat (\<lceil>1 / a\<rceil> - 1))))"

definition round_even :: "rat \<Rightarrow> int" where
  "round_even m =
     (let f = \<lfloor>m\<rfloor>; d = m - of_int f
      in if d < 1 / 2 then f else if 1 / 2 < d then f + 1
         else if even f then f else f + 1)"

definition double :: "rat \<Rightarrow> jsnum" where
  "double x =
     (if x = 0 then Num 0
      else
        let a = \<bar>x\<bar>;
            q = max (exponent a - 52) (- 1074);
            r = of_int (round_even (a / 2 powi q)) * 2 powi q
        in if 2 powi 1024 \<le> r then (if 0 < x then PosInfinity else NegInfinity)
           else Num (if 0 < x then r else - r))"

definition negative :: "jsnum \<Rightarrow> bool" where
  "negative a = (case a of Num x \<Rightarrow> x < 0 | NegInfinity \<Rightarrow> True | _ \<Rightarrow> False)"

definition js_add :: "jsnum \<Rightarrow> jsnum \<Rightarrow> jsnum" where
  "js_add a b =
     (if a = NaN \<or> b = NaN then NaN
      else case (a, b) of
        (Num x, Num y) \<Rightarrow> double (x + y)
      | (Num x, j) \<Rightarrow> j
      | (i, Num y) \<Rightarrow> i
      | (i, j) \<Rightarrow> if i = j then i else NaN)"

definition js_mul :: "jsnum \<Rightarrow> jsnum \<Rightarrow> jsnum" where
  "js_mul a b =
     (if a = NaN \<or> b = NaN then NaN
      else case (a, b) of
        (Num x, Num y) \<Rightarrow> double (x * y)
      | _ \<Rightarrow>
          if a = Num 0 \<or> b = Num 0 then NaN
          else if negative a = negative b then PosInfinity else NegInfinity)"

definition js_div :: "jsnum \<Rightarrow> jsnum \<Rightarrow> jsnum" where
  "js_div a b =
     (if a = NaN \<or> b = NaN then NaN
      else case (a, b) of
        (Num x, Num y) \<Rightarrow>
          if y = 0 then (if x = 0 then NaN else if 0 < x then PosInfinity else NegInfinity)
          else double (x / y)
      | (Num x, j) \<Rightarrow> Num 0
      | (i, Num y) \<Rightarrow> if negative i = (y < 0) then PosInfinity else NegInfinity
      | (i, j) \<Rightarrow> NaN)"

text \<open>
  Truthiness, and reading a property: one that is absent reads as \<^verbatim>\<open>undefined\<close> (\<open>None\<close>).
  The keys of an object are distinct.
\<close>

fun truthy :: "jsvalue \<Rightarrow> bool" where
  "truthy JNull = False"
| "truthy (JBool b) = b"
| "truthy (JNum n) = (double n \<noteq> Num 0)"
| "truthy (JStr s) = (s \<noteq> [])"
| "truthy (JArr xs) = True"
| "truthy (JObj kvs) = True"

fun getprop :: "jsvalue \<Rightarrow> string \<Rightarrow> jsvalue option" where
  "getprop (JObj kvs) k = map_of kvs k"
| "getprop v k = None"

record stats =
  totalActions :: jsnum
  successfulActions :: jsnum
  successRate :: jsnum
  averageScore :: jsnum

text \<open>
  The payload of \<^verbatim>\<open>UPDATE_STATS\<close> is an object holding some of the four keys:
  \<open>None\<close> is an absent key.
\<close>

record stats_payload =
  p_totalActions :: "jsnum option"
  p_successfulActions :: "jsnum option"
  p_successRate :: "jsnum option"
  p_averageScore :: "jsnum option"

type_synonym settings = "string \<rightharpoonup> jsvalue"

record state =
  currentSession :: "session option"
  sessions :: "session list"
  isTracking :: bool
  selectedSport :: string
  settings :: settings
  stats :: stats
  loading :: bool
  error :: "string option"

definition initialStats :: stats where
  "initialStats =
     \<lparr>totalActions = Num 0, successfulActions = Num 0, successRate = Num 0,
      averageScore = Num 0\<rparr>"

definition initialSettings :: settings where
  "initialSettings =
     [''feedbackTypes'' \<mapsto> JArr [JStr ''audio'', JStr ''visual''],
      ''sensitivity'' \<mapsto> JNum (7 / 10),
      ''minConfidence'' \<mapsto> JNum (8 / 10),
      ''cameraSource'' \<mapsto> JNum 0]"

definition initialState :: state where
  "initialState =
     \<lparr>currentSession = None,
      sessions = [],
      isTracking = False,
      selectedSport = ''basketball'',
      settings = initialSettings,
      stats = initialStats,
      loading = False,
      error = None\<rparr>"

section \<open>The reducer\<close>

datatype action =
    SET_LOADING bool
  | SET_ERROR "string option"
  | SET_SESSIONS "session list"
  | SET_CURRENT_SESSION "session option"
  | CREATE_SESSION session
  | UPDATE_SESSION session
  | SET_TRACKING bool
  | SET_SELECTED_SPORT string
  | UPDATE_SETTINGS settings
  | UPDATE_STATS stats_payload
  | RESET_STATS
  | OTHER string

text \<open>\<^verbatim>\<open>{ ...state.stats, ...action.payload }\<close>: a key of the payload overrides, the rest stay.\<close>

definition spread_stats :: "stats \<Rightarrow> stats_payload \<Rightarrow> stats" where
  "spread_stats old p =
     \<lparr>totalActions = (case p_totalActions p of Some v \<Rightarrow> v | None \<Rightarrow> totalActions old),
      successfulActions =
        (case p_successfulActions p of Some v \<Rightarrow> v | None \<Rightarrow> successfulActions old),
      successRate = (case p_successRate p of Some v \<Rightarrow> v | None \<Rightarrow> successRate old),
      averageScore = (case p_averageScore p of Some v \<Rightarrow> v | None \<Rightarrow> averageScore old)\<rparr>"

fun sessionReducer :: "state \<Rightarrow> action \<Rightarrow> state" where
  "sessionReducer s (SET_LOADING b) = s\<lparr>loading := b\<rparr>"
| "sessionReducer s (SET_ERROR e) = s\<lparr>error := e, loading := False\<rparr>"
| "sessionReducer s (SET_SESSIONS xs) = s\<lparr>sessions := xs, loading := False\<rparr>"
| "sessionReducer s (SET_CURRENT_SESSION c) = s\<lparr>currentSession := c\<rparr>"
| "sessionReducer s (CREATE_SESSION x) =
     s\<lparr>currentSession := Some x, sessions := x # sessions s\<rparr>"
| "sessionReducer s (UPDATE_SESSION x) =
     (let updatedSessions =
            map (\<lambda>y. if session_id y = session_id x then x else y) (sessions s)
      in s\<lparr>sessions := updatedSessions,
            currentSession :=
              (case currentSession s of
                 None \<Rightarrow> None
               | Some c \<Rightarrow> if session_id c = session_id x then Some x else Some c)\<rparr>)"
| "sessionReducer s (SET_TRACKING b) = s\<lparr>isTracking := b\<rparr>"
| "sessionReducer s (SET_SELECTED_SPORT sp) = s\<lparr>selectedSport := sp\<rparr>"
| "sessionReducer s (UPDATE_SETTINGS p) = s\<lparr>settings := settings s ++ p\<rparr>"
| "sessionReducer s (UPDATE_STATS p) = s\<lparr>stats := spread_stats (stats s) p\<rparr>"
| "sessionReducer s RESET_STATS = s\<lparr>stats := initialStats\<rparr>"
| "sessionReducer s (OTHER t) = s"

section \<open>Store operations without network access\<close>

definition updateSettings :: "settings \<Rightarrow> state \<Rightarrow> state" where
  "updateSettings newSettings s = sessionReducer s (UPDATE_SETTINGS newSettings)"

definition setSelectedSport :: "string \<Rightarrow> state \<Rightarrow> state" where
  "setSelectedSport sp s = sessionReducer s (SET_SELECTED_SPORT sp)"

definition updateStats :: "stats_payload \<Rightarrow> state \<Rightarrow> state" where
  "updateStats p s = sessionReducer s (UPDATE_STATS p)"

definition clearError :: "state \<Rightarrow> state" where
  "clearError s = sessionReducer s (SET_ERROR None)"

section \<open>Store operations that call the REST collaborator\<close>

text \<open>
  Each operation is an \<^verbatim>\<open>async\<close> function around one \<^verbatim>\<open>fetch\<close>. The model takes what
  the network does as an argument and returns what the operation does: the requests it
  issues, the actions it dispatches (in order) and the value it resolves to, or the message
  of the error it rethrows (\<open>Inl\<close>).
\<close>

record draft =
  d_name :: string
  d_sport :: string
  d_description :: string
  d_target_actions :: nat
  d_settings :: settings

datatype request =
    PostSessions draft             \<comment> \<open>\<^verbatim>\<open>POST /api/sessions\<close>\<close>
  | GetSessions                    \<comment> \<open>\<^verbatim>\<open>GET /api/sessions\<close>\<close>
  | GetSession string              \<comment> \<open>\<^verbatim>\<open>GET /api/sessions/{id}\<close>\<close>
  | PostTrackingStart string settings  \<comment> \<open>\<^verbatim>\<open>POST /api/tracking/start\<close>, body \<^verbatim>\<open>{sport, settings}\<close>\<close>
  | PostTrackingStop               \<comment> \<open>\<^verbatim>\<open>POST /api/tracking/stop\<close>\<close>

text \<open>
  \<open>Rejects msg\<close>: the \<^verbatim>\<open>fetch\<close> promise rejects with an error of that message.
  \<open>Resolves ok body\<close>: it resolves to a response with that \<^verbatim>\<open>ok\<close> flag, whose
  \<^verbatim>\<open>json()\<close> gives \<open>Inr\<close> the decoded body or rejects with \<open>Inl\<close> a message.
\<close>

datatype 'a fetch_result = Rejects string | Resolves bool "string + 'a"

record 'a outcome =
  requests :: "request list"
  dispatched :: "action list"
  result :: "string + 'a"

definition commit :: "state \<Rightarrow> action list \<Rightarrow> state" where
  "commit s as = foldl sessionReducer s as"

definition createSession :: "draft \<Rightarrow> session fetch_result \<Rightarrow> session outcome" where
  "createSession sessionData r =
     (case r of
        Rejects msg \<Rightarrow>
          \<lparr>requests = [PostSessions sessionData],
           dispatched = [SET_LOADING True, SET_ERROR (Some msg)],
           result = Inl msg\<rparr>
      | Resolves ok body \<Rightarrow>
          if \<not> ok then
            \<lparr>requests = [PostSessions sessionData],
             dispatched = [SET_LOADING True, SET_ERROR (Some ''Failed to create session'')],
             result = Inl ''Failed to create session''\<rparr>
          else
            (case body of
               Inl msg \<Rightarrow>
                 \<lparr>requests = [PostSessions sessionData],
                  dispatched = [SET_LOADING True, SET_ERROR (Some msg)],
                  result = Inl msg\<rparr>
             | Inr session \<Rightarrow>
                 \<lparr>requests = [PostSessions sessionData],
                  dispatched = [SET_LOADING True, CREATE_SESSION session],
                  result = Inr session\<rparr>))"

definition getSessions :: "session list fetch_result \<Rightarrow> session list outcome" where
  "getSessions r =
     (case r of
        Rejects msg \<Rightarrow>
          \<lparr>requests = [GetSessions],
           dispatched = [SET_LOADING True, SET_ERROR (Some msg)],
           result = Inl msg\<rparr>
      | Resolves ok body \<Rightarrow>
          if \<not> ok then
            \<lparr>requests = [GetSessions],
             dispatched = [SET_LOADING True, SET_ERROR (Some ''Failed to fetch sessions'')],
             result = Inl ''Failed to fetch sessions''\<rparr>
          else
            (case body of
               Inl msg \<Rightarrow>
                 \<lparr>requests = [GetSessions],
                  dispatched = [SET_LOADING True, SET_ERROR (Some msg)],
                  result = Inl msg\<rparr>
             | Inr xs \<Rightarrow>
                 \<lparr>requests = [GetSessions],
                  dispatched = [SET_LOADING True, SET_SESSIONS xs],
                  result = Inr xs\<rparr>))"

definition getSession :: "string \<Rightarrow> session fetch_result \<Rightarrow> session outcome" where
  "getSession sessionId r =
     (case r of
        Rejects msg \<Rightarrow>
          \<lparr>requests = [GetSession sessionId],
           dispatched = [SET_LOADING True, SET_ERROR (Some msg)],
           result = Inl msg\<rparr>
      | Resolves ok body \<Rightarrow>
          if \<not> ok then
            \<lparr>requests = [GetSession sessionId],
             dispatched = [SET_LOADING True, SET_ERROR (Some ''Failed to fetch session'')],
             result = Inl ''Failed to fetch session''\<rparr>
          else
            (case body of
               Inl msg \<Rightarrow>
                 \<lparr>requests = [GetSession sessionId],
                  dispatched = [SET_LOADING True, SET_ERROR (Some msg)],
                  result = Inl msg\<rparr>
             | Inr session \<Rightarrow>
                 \<lparr>requests = [GetSession sessionId],
                  dispatched = [SET_LOADING True, SET_CURRENT_SESSION (Some session)],
                  result = Inr session\<rparr>))"

text \<open>
  \<^verbatim>\<open>startTracking\<close> reads \<^verbatim>\<open>state.selectedSport\<close> and \<^verbatim>\<open>state.settings\<close> of the render
  it was created in (the argument \<open>s\<close>) for the request body, and never reads the response
  body. It takes no argument and reads neither \<^verbatim>\<open>state.currentSession\<close> nor the
  connection.
\<close>

definition startTracking :: "state \<Rightarrow> unit fetch_result \<Rightarrow> bool outcome" where
  "startTracking s r =
     (case r of
        Rejects msg \<Rightarrow>
          \<lparr>requests = [PostTrackingStart (selectedSport s) (settings s)],
           dispatched = [SET_ERROR (Some msg)],
           result = Inl msg\<rparr>
      | Resolves ok body \<Rightarrow>
          if \<not> ok then
            \<lparr>requests = [PostTrackingStart (selectedSport s) (settings s)],
             dispatched = [SET_ERROR (Some ''Failed to start tracking'')],
             result = Inl ''Failed to start tracking''\<rparr>
          else
            \<lparr>requests = [PostTrackingStart (selectedSport s) (settings s)],
             dispatched = [SET_TRACKING True],
             result = Inr True\<rparr>)"

definition stopTracking :: "unit fetch_result \<Rightarrow> bool outcome" where
  "stopTracking r =
     (case r of
        Rejects msg \<Rightarrow>
          \<lparr>requests = [PostTrackingStop],
           dispatched = [SET_ERROR (Some msg)],
           result = Inl msg\<rparr>
      | Resolves ok body \<Rightarrow>
          if \<not> ok then
            \<lparr>requests = [PostTrackingStop],
             dispatched = [SET_ERROR (Some ''Failed to stop tracking'')],
             result = Inl ''Failed to stop tracking''\<rparr>
          else
            \<lparr>requests = [PostTrackingStop],
             dispatched = [SET_TRACKING False],
             result = Inr True\<rparr>)"

section \<open>The tracker component's handling of a detected action\<close>

text \<open>
  \<^verbatim>\<open>handleActionDetected\<close> of \<^verbatim>\<open>RealTimeTracker.js\<close>. It builds \<^verbatim>\<open>newAction\<close> from the
  properties of the message's \<^verbatim>\<open>data\<close> (its \<^verbatim>\<open>id\<close> and \<^verbatim>\<open>timestamp\<close> come from the clock
  and are left out, and with them the list of recent actions). The component takes
  \<^verbatim>\<open>stats\<close> from the store when it renders; the handler computes the four new fields from
  that value and passes them to \<^verbatim>\<open>updateStats\<close>. The component's own counters are updated
  with React's functional form (\<^verbatim>\<open>prev => ...\<close>).
\<close>

record actionData =
  action_type :: "jsvalue option"
  successful :: "jsvalue option"
  confidence :: "jsvalue option"
  details :: jsvalue

definition newAction_of :: "jsvalue \<Rightarrow> actionData" where
  "newAction_of d =
     \<lparr>action_type = getprop d ''action'',
      successful = getprop d ''successful'',
      confidence = getprop d ''confidence'',
      details = (case getprop d ''details'' of
                   None \<Rightarrow> JObj []
                 | Some v \<Rightarrow> if truthy v then v else JObj [])\<rparr>"

definition is_successful :: "actionData \<Rightarrow> bool" where
  "is_successful e = (case successful e of None \<Rightarrow> False | Some v \<Rightarrow> truthy v)"

text \<open>
  The number that \<^verbatim>\<open>n + v\<close> adds to a number \<^verbatim>\<open>n\<close>: NaN for \<^verbatim>\<open>undefined\<close>, 0 for
  \<^verbatim>\<open>null\<close>. For a string, an array or an object the sum is a string concatenation, which
  is not modelled: \<open>None\<close>.
\<close>

fun operand :: "jsvalue option \<Rightarrow> jsnum option" where
  "operand None = Some NaN"
| "operand (Some JNull) = Some (Num 0)"
| "operand (Some (JBool b)) = Some (Num (if b then 1 else 0))"
| "operand (Some (JNum x)) = Some (double x)"
| "operand (Some (JStr s)) = None"
| "operand (Some (JArr xs)) = None"
| "operand (Some (JObj kvs)) = None"

record performanceData =
  streak :: nat
  lastAction :: "actionData option"
  sessionActions :: nat
  sessionSuccesses :: nat

definition initialPerformanceData :: performanceData where
  "initialPerformanceData =
     \<lparr>streak = 0, lastAction = None, sessionActions = 0, sessionSuccesses = 0\<rparr>"

definition performanceUpdate :: "actionData \<Rightarrow> performanceData \<Rightarrow> performanceData" where
  "performanceUpdate newAction prev =
     prev\<lparr>lastAction := Some newAction,
          sessionActions := sessionActions prev + 1,
          sessionSuccesses := sessionSuccesses prev + (if is_successful newAction then 1 else 0),
          streak := (if is_successful newAction then streak prev + 1 else 0)\<rparr>"

text \<open>
  The payload the handler passes to \<^verbatim>\<open>updateStats\<close>, from the stats the component holds
  (\<open>held\<close>);
  \<open>None\<close> where the sum with the confidence is not modelled.
\<close>

definition handleActionDetected :: "stats \<Rightarrow> actionData \<Rightarrow> stats_payload option" where
  "handleActionDetected held newAction =
     (case operand (confidence newAction) of
        None \<Rightarrow> None
      | Some c \<Rightarrow>
          Some
           \<lparr>p_totalActions = Some (js_add (totalActions held) (Num 1)),
            p_successfulActions =
              Some (js_add (successfulActions held)
                     (Num (if is_successful newAction then 1 else 0))),
            p_successRate =
              Some (js_mul
                     (js_div
                       (js_add (successfulActions held)
                         (Num (if is_successful newAction then 1 else 0)))
                       (js_add (totalActions held) (Num 1)))
                     (Num 100)),
            p_averageScore =
              Some (js_div
                     (js_add (js_mul (averageScore held) (totalActions held)) c)
                     (js_add (totalActions held) (Num 1)))\<rparr>)"

section \<open>Serialising commands\<close>

text \<open>
  The commands the tracker sends are objects whose properties are strings
  (\<^verbatim>\<open>{type: 'camera_control', action: 'start'}\<close>): a list of key and value in property
  order, with distinct keys. \<open>JSON_stringify\<close> and \<open>JSON_parse\<close> are the platform's
  \<^verbatim>\<open>JSON.stringify\<close> and \<^verbatim>\<open>JSON.parse\<close> on such objects, after the ECMAScript definition
  (QuoteJSONString and the JSON grammar), with characters as 8-bit code units. For a text
  that is no such object \<open>JSON_parse\<close> gives \<open>None\<close>.
\<close>

type_synonym message = "(string \<times> string) list"

definition hexdigit :: "nat \<Rightarrow> char" where
  "hexdigit n = (if n < 10 then char_of (48 + n) else char_of (87 + n))"

definition escape_char :: "char \<Rightarrow> string" where
  "escape_char c =
     (if c = CHR 0x22 then [CHR 0x5C, CHR 0x22]
      else if c = CHR 0x5C then [CHR 0x5C, CHR 0x5C]
      else if c = CHR 0x08 then [CHR 0x5C, CHR ''b'']
      else if c = CHR 0x0C then [CHR 0x5C, CHR ''f'']
      else if c = CHR 0x0A then [CHR 0x5C, CHR ''n'']
      else if c = CHR 0x0D then [CHR 0x5C, CHR ''r'']
      else if c = CHR 0x09 then [CHR 0x5C, CHR ''t'']
      else if (of_char c :: nat) < 32 then
        [CHR 0x5C, CHR ''u'', CHR ''0'', CHR ''0'',
         hexdigit (of_char c div 16), hexdigit (of_char c mod 16)]
      else [c])"

definition quote :: "string \<Rightarrow> string" where
  "quote s = CHR 0x22 # concat (map escape_char s) @ [CHR 0x22]"

fun members :: "message \<Rightarrow> string" where
  "members [] = []"
| "members [(k, v)] = quote k @ CHR '':'' # quote v"
| "members ((k, v) # kvs) = quote k @ CHR '':'' # quote v @ CHR '','' # members kvs"

definition JSON_stringify :: "message \<Rightarrow> string" where
  "JSON_stringify m = CHR ''{'' # members m @ [CHR ''}'']"

definition hexval :: "char \<Rightarrow> nat option" where
  "hexval c =
     (let n = (of_char c :: nat)
      in if 48 \<le> n \<and> n \<le> 57 then Some (n - 48)
         else if 97 \<le> n \<and> n \<le> 102 then Some (n - 87)
         else if 65 \<le> n \<and> n \<le> 70 then Some (n - 55)
         else None)"

definition unescape :: "char \<Rightarrow> char option" where
  "unescape e =
     (if e = CHR 0x22 then Some (CHR 0x22)
      else if e = CHR 0x5C then Some (CHR 0x5C)
      else if e = CHR ''/'' then Some (CHR ''/'')
      else if e = CHR ''b'' then Some (CHR 0x08)
      else if e = CHR ''f'' then Some (CHR 0x0C)
      else if e = CHR ''n'' then Some (CHR 0x0A)
      else if e = CHR ''r'' then Some (CHR 0x0D)
      else if e = CHR ''t'' then Some (CHR 0x09)
      else None)"

definition cons_result :: "char \<Rightarrow> (string \<times> string) option \<Rightarrow> (string \<times> string) option" where
  "cons_result c r = (case r of None \<Rightarrow> None | Some (s, rest) \<Rightarrow> Some (c # s, rest))"

definition hex4 :: "char \<Rightarrow> char \<Rightarrow> char \<Rightarrow> char \<Rightarrow> nat option" where
  "hex4 h1 h2 h3 h4 =
     (case hexval h1 of None \<Rightarrow> None | Some d1 \<Rightarrow>
      case hexval h2 of None \<Rightarrow> None | Some d2 \<Rightarrow>
      case hexval h3 of None \<Rightarrow> None | Some d3 \<Rightarrow>
      case hexval h4 of None \<Rightarrow> None | Some d4 \<Rightarrow>
        Some (((d1 * 16 + d2) * 16 + d3) * 16 + d4))"

fun parse_chars :: "string \<Rightarrow> (string \<times> string) option" where
  "parse_chars [] = None"
| "parse_chars (c # cs) =
     (if c = CHR 0x22 then Some ([], cs)
      else if c = CHR 0x5C then
        (case cs of
           [] \<Rightarrow> None
         | e # cs1 \<Rightarrow>
             if e = CHR ''u'' then
               (case cs1 of
                  h1 # h2 # h3 # h4 # cs2 \<Rightarrow>
                    (case hex4 h1 h2 h3 h4 of
                       None \<Rightarrow> None
                     | Some n \<Rightarrow>
                         if n < 256 then cons_result (char_of n) (parse_chars cs2) else None)
                | _ \<Rightarrow> None)
             else
               (case unescape e of
                  None \<Rightarrow> None
                | Some ch \<Rightarrow> cons_result ch (parse_chars cs1)))
      else if (of_char c :: nat) < 32 then None
      else cons_result c (parse_chars cs))"

definition parse_string :: "string \<Rightarrow> (string \<times> string) option" where
  "parse_string s =
     (case s of [] \<Rightarrow> None | c # cs \<Rightarrow> if c = CHR 0x22 then parse_chars cs else None)"

definition is_ws :: "char \<Rightarrow> bool" where
  "is_ws c = (c = CHR '' '' \<or> c = CHR 0x09 \<or> c = CHR 0x0A \<or> c = CHR 0x0D)"

definition skip_ws :: "string \<Rightarrow> string" where
  "skip_ws s = dropWhile is_ws s"

definition set_prop :: "string \<Rightarrow> string \<Rightarrow> message \<Rightarrow> message" where
  "set_prop k v m =
     (if k \<in> fst ` set m then map (\<lambda>(k', v'). if k' = k then (k', v) else (k', v')) m
      else m @ [(k, v)])"

lemma cons_result_rest:
  "cons_result c p = Some (x, r) \<Longrightarrow> \<exists>x'. p = Some (x', r)"
  by (auto simp: cons_result_def split: option.splits)

lemma parse_chars_shorter: "parse_chars s = Some (x, r) \<Longrightarrow> length r < length s"
proof (induction s arbitrary: x rule: parse_chars.induct)
  case 1
  then show ?case by simp
next
  case (2 c cs)
  show ?case
  proof (cases "c = CHR 0x22")
    case True
    with "2.prems" show ?thesis by simp
  next
    case nq: False
    show ?thesis
    proof (cases "c = CHR 0x5C")
      case False
      with nq "2.prems" have lit: "\<not> (of_char c :: nat) < 32" and
        "cons_result c (parse_chars cs) = Some (x, r)"
        by (auto split: if_splits)
      then obtain x' where "parse_chars cs = Some (x', r)"
        using cons_result_rest by blast
      from "2.IH"(3)[OF nq False lit this] show ?thesis by simp
    next
      case bs: True
      show ?thesis
      proof (cases cs)
        case Nil
        with nq bs "2.prems" show ?thesis by simp
      next
        case (Cons e cs1)
        show ?thesis
        proof (cases "e = CHR ''u''")
          case False
          with nq bs Cons "2.prems" obtain ch where u: "unescape e = Some ch"
            and "cons_result ch (parse_chars cs1) = Some (x, r)"
            by (auto split: option.splits)
          then obtain x' where "parse_chars cs1 = Some (x', r)"
            using cons_result_rest by blast
          from "2.IH"(2)[OF nq bs Cons False u this] Cons show ?thesis by simp
        next
          case True
          with nq bs Cons "2.prems" obtain h1 h2 h3 h4 cs2 n where
            cs1: "cs1 = h1 # h2 # h3 # h4 # cs2" and
            hv: "hex4 h1 h2 h3 h4 = Some n" and
            lt: "n < 256" and
            "cons_result (char_of n) (parse_chars cs2) = Some (x, r)"
            by (auto split: list.splits option.splits if_splits)
          then obtain x' where p: "parse_chars cs2 = Some (x', r)"
            using cons_result_rest by blast
          have "length r < length cs2"
            by (rule "2.IH"(1)[OF nq bs Cons True _ _ _ _ hv lt p]) (simp_all add: cs1)
          with Cons cs1 show ?thesis by simp
        qed
      qed
    qed
  qed
qed

lemma parse_string_shorter: "parse_string s = Some (x, r) \<Longrightarrow> length r < length s"
  by (cases s) (auto simp: parse_string_def dest: parse_chars_shorter split: if_splits)

lemma skip_ws_length: "length (skip_ws s) \<le> length s"
  by (simp add: skip_ws_def length_dropWhile_le)

function parse_members :: "message \<Rightarrow> string \<Rightarrow> (message \<times> string) option" where
  "parse_members acc s =
     (case parse_string (skip_ws s) of
        None \<Rightarrow> None
      | Some (k, r1) \<Rightarrow>
          (case skip_ws r1 of
             [] \<Rightarrow> None
           | c1 # r2 \<Rightarrow>
               if c1 = CHR '':'' then
                 (case parse_string (skip_ws r2) of
                    None \<Rightarrow> None
                  | Some (v, r3) \<Rightarrow>
                      (case skip_ws r3 of
                         [] \<Rightarrow> None
                       | c2 # r4 \<Rightarrow>
                           if c2 = CHR '','' then parse_members (set_prop k v acc) r4
                           else if c2 = CHR ''}'' then Some (set_prop k v acc, r4)
                           else None))
               else None))"
  by pat_completeness auto
termination
proof (relation "measure (\<lambda>(acc, s). length s)", goal_cases)
  case 1
  then show ?case by simp
next
  case (2 acc s x2 k r1 c1 r2 x2a v r3 c2 r4)
  from 2 have a: "length r1 < length (skip_ws s)"
    using parse_string_shorter by metis
  from 2 have b: "length r3 < length (skip_ws r2)"
    using parse_string_shorter by metis
  from 2 have c: "length r2 < length (skip_ws r1)" and d: "length r4 < length (skip_ws r3)"
    by simp_all
  from a b c d skip_ws_length[of s] skip_ws_length[of r1] skip_ws_length[of r2] skip_ws_length[of r3]
  show ?case by simp
qed

definition JSON_parse :: "string \<Rightarrow> message option" where
  "JSON_parse s =
     (case skip_ws s of
        [] \<Rightarrow> None
      | c # r \<Rightarrow>
          if c = CHR ''{'' then
            (case skip_ws r of
               [] \<Rightarrow> None
             | c' # r' \<Rightarrow>
                 if c' = CHR ''}'' then (if skip_ws r' = [] then Some [] else None)
                 else
                   (case parse_members [] r of
                      None \<Rightarrow> None
                    | Some (m, rest) \<Rightarrow> if skip_ws rest = [] then Some m else None))
          else None)"

section \<open>The connection manager\<close>

text \<open>
  \<^verbatim>\<open>WebSocketProvider\<close> keeps five pieces of React state. The model adds what lives outside
  them: the sockets constructed so far, the pending reconnect timers and the calls made on
  sockets and timers. A callback made by \<^verbatim>\<open>useCallback\<close> holds the state of the render
  that created it, not the state at the time it is called. \<^verbatim>\<open>connect\<close>, and every handler
  it installs, holds that render's \<^verbatim>\<open>reconnectAttempts\<close>: the first argument of \<open>connect\<close>
  and \<open>onclose\<close>. A socket is identified by its position in \<open>created\<close>, which records the
  counter its handlers hold. \<^verbatim>\<open>disconnect\<close> holds that render's \<^verbatim>\<open>socket\<close>, and
  \<^verbatim>\<open>sendMessage\<close> its \<^verbatim>\<open>socket\<close> and \<^verbatim>\<open>isConnected\<close>: their first arguments. The socket's
  URL plays no part below and is left out.
\<close>

datatype call =
    NewWebSocket
  | SetTimeout nat
  | SocketClose nat nat string
  | SocketSend nat string

record provider =
  socket :: "nat option"
  isConnected :: bool
  reconnectAttempts :: nat
  lastMessage :: jsvalue
  connectionError :: "string option"
  created :: "nat list"
  timers :: "nat list"
  calls :: "call list"

definition initialProvider :: provider where
  "initialProvider =
     \<lparr>socket = None, isConnected = False, reconnectAttempts = 0, lastMessage = JNull,
      connectionError = None, created = [], timers = [], calls = []\<rparr>"

definition MAX_RECONNECT_ATTEMPTS :: nat where
  "MAX_RECONNECT_ATTEMPTS = 5"

definition RECONNECT_DELAY :: nat where
  "RECONNECT_DELAY = 3000"

text \<open>\<open>throws\<close>: the \<^verbatim>\<open>WebSocket\<close> constructor raises, and the \<^verbatim>\<open>catch\<close> branch runs.\<close>

definition connect :: "nat \<Rightarrow> bool \<Rightarrow> provider \<Rightarrow> provider" where
  "connect captured throws s =
     (if throws then s\<lparr>connectionError := Some ''Unable to establish connection''\<rparr>
      else s\<lparr>created := created s @ [captured], calls := calls s @ [NewWebSocket]\<rparr>)"

definition onopen :: "nat \<Rightarrow> provider \<Rightarrow> provider" where
  "onopen ws s =
     s\<lparr>isConnected := True, reconnectAttempts := 0, connectionError := None,
       socket := Some ws\<rparr>"

text \<open>
  The argument of \<open>onmessage\<close> is what \<^verbatim>\<open>JSON.parse(event.data)\<close> gives: \<open>None\<close> when it
  raises.
\<close>

definition onmessage :: "jsvalue option \<Rightarrow> provider \<Rightarrow> provider" where
  "onmessage parsed s =
     (case parsed of Some data \<Rightarrow> s\<lparr>lastMessage := data\<rparr> | None \<Rightarrow> s)"

definition onclose :: "nat \<Rightarrow> nat \<Rightarrow> provider \<Rightarrow> provider" where
  "onclose captured code s =
     (let s1 = s\<lparr>isConnected := False, socket := None\<rparr>
      in if code \<noteq> 1000 \<and> captured < MAX_RECONNECT_ATTEMPTS
         then s1\<lparr>timers := timers s1 @ [captured],
                 calls := calls s1 @ [SetTimeout RECONNECT_DELAY]\<rparr>
         else s1)"

definition onerror :: "provider \<Rightarrow> provider" where
  "onerror s = s\<lparr>connectionError := Some ''Failed to connect to tracking service''\<rparr>"

text \<open>
  The timer's callback: it increments the counter with the functional form and calls the
  \<^verbatim>\<open>connect\<close> of the closure that scheduled it.
\<close>

definition timeout :: "nat \<Rightarrow> bool \<Rightarrow> provider \<Rightarrow> provider" where
  "timeout captured throws s =
     connect captured throws (s\<lparr>reconnectAttempts := reconnectAttempts s + 1\<rparr>)"

definition disconnect :: "nat option \<Rightarrow> provider \<Rightarrow> provider" where
  "disconnect captured_socket s =
     (case captured_socket of
        Some ws \<Rightarrow> s\<lparr>calls := calls s @ [SocketClose ws 1000 ''Manual disconnect'']\<rparr>
      | None \<Rightarrow> s)"

text \<open>
  \<open>throws\<close>: \<^verbatim>\<open>socket.send\<close> raises. The call on the socket is recorded either way; the
  first component is the value returned.
\<close>

definition sendMessage ::
  "nat option \<Rightarrow> bool \<Rightarrow> message \<Rightarrow> bool \<Rightarrow> provider \<Rightarrow> bool \<times> provider" where
  "sendMessage captured_socket captured_isConnected message throws s =
     (case captured_socket of
        None \<Rightarrow> (False, s)
      | Some ws \<Rightarrow>
          if captured_isConnected
          then (\<not> throws, s\<lparr>calls := calls s @ [SocketSend ws (JSON_stringify message)]\<rparr>)
          else (False, s))"

text \<open>
  What happens to the provider, one event at a time. Every render of the provider
  evaluates the dependency list of \<^verbatim>\<open>connect\<close>, which names \<^verbatim>\<open>WS_URL\<close>; the file does not
  declare it, so the render raises a ReferenceError unless the page declares a global of
  that name. The first argument of \<open>step\<close> says whether it does: if not, the provider never
  renders and no event takes place. \<open>Mount\<close> is the first render and its effect, which
  calls the \<^verbatim>\<open>connect\<close> of that render (counter 0). \<open>Connect c\<close> is a consumer calling the
  \<^verbatim>\<open>connect\<close> of a render whose counter was \<open>c\<close>; \<open>Disconnect\<close> and \<open>Send\<close> are a consumer's
  calls, with what the callback holds. \<open>Opened\<close>, \<open>Message\<close>, \<open>Closed\<close> and \<open>Errored\<close> are
  the socket's events, \<open>TimerFires\<close> the oldest pending timer.
\<close>

datatype js_error = ReferenceError | TypeError | NotModelled

datatype event =
    Mount
  | Connect nat
  | Opened nat
  | Message nat "jsvalue option"
  | Closed nat nat
  | Errored nat
  | TimerFires
  | Disconnect "nat option"
  | Send "nat option" bool message

fun step :: "bool \<Rightarrow> provider \<Rightarrow> event \<Rightarrow> js_error + provider" where
  "step False s e = Inl ReferenceError"
| "step True s Mount = Inr (connect 0 False s)"
| "step True s (Connect c) = Inr (connect c False s)"
| "step True s (Opened ws) = Inr (if ws < length (created s) then onopen ws s else s)"
| "step True s (Message ws parsed) =
     Inr (if ws < length (created s) then onmessage parsed s else s)"
| "step True s (Closed ws code) =
     Inr (if ws < length (created s) then onclose (created s ! ws) code s else s)"
| "step True s (Errored ws) = Inr (if ws < length (created s) then onerror s else s)"
| "step True s TimerFires =
     Inr (case timers s of [] \<Rightarrow> s | c # cs \<Rightarrow> timeout c False (s\<lparr>timers := cs\<rparr>))"
| "step True s (Disconnect captured_socket) = Inr (disconnect captured_socket s)"
| "step True s (Send captured_socket captured_isConnected m) =
     Inr (snd (sendMessage captured_socket captured_isConnected m False s))"

fun run :: "bool \<Rightarrow> provider \<Rightarrow> event list \<Rightarrow> js_error + provider" where
  "run declared s [] = Inr s"
| "run declared s (e # es) =
     (case step declared s e of Inl err \<Rightarrow> Inl err | Inr s' \<Rightarrow> run declared s' es)"

text \<open>The events that happen without a consumer calling \<^verbatim>\<open>connect\<close>.\<close>

fun automatic :: "event \<Rightarrow> bool" where
  "automatic (Connect c) = False"
| "automatic e = True"

definition scheduled :: "provider \<Rightarrow> nat" where
  "scheduled s = length (filter (\<lambda>c. c = SetTimeout RECONNECT_DELAY) (calls s))"

section \<open>The tracker as a consumer of the connection manager\<close>

text \<open>
  The provider publishes nothing by itself: it stores the decoded frame in
  \<^verbatim>\<open>lastMessage\<close>, and a consumer reads it in an effect. The effect of
  \<^verbatim>\<open>RealTimeTracker.js\<close> switches on \<^verbatim>\<open>lastMessage.type\<close>; reading a property of
  \<^verbatim>\<open>undefined\<close> or \<^verbatim>\<open>null\<close> raises a TypeError.
\<close>

datatype reaction =
    NoReaction
  | HandleActionDetected jsvalue
  | SetCurrentFeedback "jsvalue option"
  | SetCameraActive "jsvalue option"

definition onLastMessage :: "jsvalue \<Rightarrow> js_error + reaction" where
  "onLastMessage m =
     (if truthy m then
        (case getprop m ''type'' of
           Some (JStr t) \<Rightarrow>
             if t = ''action_detected'' then
               (case getprop m ''data'' of
                  None \<Rightarrow> Inl TypeError
                | Some JNull \<Rightarrow> Inl TypeError
                | Some d \<Rightarrow> Inr (HandleActionDetected d))
             else if t = ''feedback'' then Inr (SetCurrentFeedback (getprop m ''data''))
             else if t = ''camera_status'' then
               (case getprop m ''data'' of
                  None \<Rightarrow> Inl TypeError
                | Some JNull \<Rightarrow> Inl TypeError
                | Some d \<Rightarrow> Inr (SetCameraActive (getprop d ''active'')))
             else Inr NoReaction
         | _ \<Rightarrow> Inr NoReaction)
      else Inr NoReaction)"

text \<open>
  The provider, the session store and the tracker together. \<open>tracker\<close> is \<open>None\<close> while the
  tracker is not mounted and holds its counters while it is; \<open>changed\<close> says whether
  \<^verbatim>\<open>lastMessage\<close> was set since the tracker's effect last ran; \<open>handled\<close> lists what the
  effect did, in order.
\<close>

record app =
  connection :: provider
  store :: state
  tracker :: "performanceData option"
  changed :: bool
  handled :: "reaction list"

definition initialApp :: app where
  "initialApp =
     \<lparr>connection = initialProvider, store = initialState, tracker = None, changed = False,
      handled = []\<rparr>"

text \<open>
  One run of the tracker's effect. The handler works on the stats the store holds at that
  render. An error raised in an effect unmounts the whole tree: the run ends there.
\<close>

definition effect :: "app \<Rightarrow> js_error + app" where
  "effect a =
     (case tracker a of
        None \<Rightarrow> Inr a
      | Some p \<Rightarrow>
          (case onLastMessage (lastMessage (connection a)) of
             Inl err \<Rightarrow> Inl err
           | Inr NoReaction \<Rightarrow> Inr a
           | Inr (HandleActionDetected d) \<Rightarrow>
               (case handleActionDetected (stats (store a)) (newAction_of d) of
                  None \<Rightarrow> Inl NotModelled
                | Some payload \<Rightarrow>
                    Inr (a\<lparr>store := updateStats payload (store a),
                           tracker := Some (performanceUpdate (newAction_of d) p),
                           handled := handled a @ [HandleActionDetected d]\<rparr>))
           | Inr r \<Rightarrow> Inr (a\<lparr>handled := handled a @ [r]\<rparr>)))"

text \<open>
  The tracker is rendered inside the provider: where the provider cannot render, nothing
  is. \<open>Provider e\<close>: an event of the provider. \<open>Render\<close>: React renders and runs the effects
  whose dependencies changed; the tracker's effect depends on \<^verbatim>\<open>lastMessage\<close>.
  \<open>TrackerMounts\<close>: the tracker is mounted (its route is opened) with fresh counters, and
  its effect runs on the \<^verbatim>\<open>lastMessage\<close> stored at that time. \<open>TrackerUnmounts\<close>: it is
  removed.
\<close>

datatype tick = Provider event | Render | TrackerMounts | TrackerUnmounts

fun sets_lastMessage :: "provider \<Rightarrow> event \<Rightarrow> bool" where
  "sets_lastMessage s (Message w (Some d)) = (w < length (created s))"
| "sets_lastMessage s e = False"

fun app_step :: "bool \<Rightarrow> app \<Rightarrow> tick \<Rightarrow> js_error + app" where
  "app_step False a t = Inl ReferenceError"
| "app_step True a (Provider e) =
     (case step True (connection a) e of
        Inl err \<Rightarrow> Inl err
      | Inr s' \<Rightarrow>
          Inr (a\<lparr>connection := s',
                 changed := (if sets_lastMessage (connection a) e then True else changed a)\<rparr>))"
| "app_step True a Render =
     (if changed a
      then (case effect a of Inl err \<Rightarrow> Inl err | Inr a' \<Rightarrow> Inr (a'\<lparr>changed := False\<rparr>))
      else Inr a)"
| "app_step True a TrackerMounts =
     (case tracker a of
        Some p \<Rightarrow> Inr a
      | None \<Rightarrow>
          (case effect (a\<lparr>tracker := Some initialPerformanceData\<rparr>) of
             Inl err \<Rightarrow> Inl err
           | Inr a' \<Rightarrow> Inr (a'\<lparr>changed := False\<rparr>)))"
| "app_step True a TrackerUnmounts = Inr (a\<lparr>tracker := None\<rparr>)"

fun app_run :: "bool \<Rightarrow> app \<Rightarrow> tick list \<Rightarrow> js_error + app" where
  "app_run declared a [] = Inr a"
| "app_run declared a (t # ts) =
     (case app_step declared a t of Inl err \<Rightarrow> Inl err | Inr a' \<Rightarrow> app_run declared a' ts)"


section \<open>Settings and stats updates\<close>

text \<open>
  C9. \<^verbatim>\<open>updateSettings(partial)\<close> shallow-merges: a key of the partial takes the supplied
  value as it is, a key outside the partial keeps its previous value, and no other field
  of the store changes.
\<close>

theorem updateSettings_shallow_merge:
  "settings (updateSettings p s) k = (case p k of Some v \<Rightarrow> Some v | None \<Rightarrow> settings s k)
   \<and> sessions (updateSettings p s) = sessions s
   \<and> currentSession (updateSettings p s) = currentSession s
   \<and> stats (updateSettings p s) = stats s
   \<and> isTracking (updateSettings p s) = isTracking s
   \<and> error (updateSettings p s) = error s
   \<and> selectedSport (updateSettings p s) = selectedSport s
   \<and> loading (updateSettings p s) = loading s"
  by (simp add: updateSettings_def map_add_def)

text \<open>
  C10. \<^verbatim>\<open>updateStats(p)\<close> is one reducer transition; each field named in the payload takes
  the supplied value unchanged, each field not named keeps its previous value.
\<close>

theorem updateStats_verbatim:
  "updateStats p s = sessionReducer s (UPDATE_STATS p)
   \<and> totalActions (stats (updateStats p s))
       = (case p_totalActions p of Some v \<Rightarrow> v | None \<Rightarrow> totalActions (stats s))
   \<and> successfulActions (stats (updateStats p s))
       = (case p_successfulActions p of Some v \<Rightarrow> v | None \<Rightarrow> successfulActions (stats s))
   \<and> successRate (stats (updateStats p s))
       = (case p_successRate p of Some v \<Rightarrow> v | None \<Rightarrow> successRate (stats s))
   \<and> averageScore (stats (updateStats p s))
       = (case p_averageScore p of Some v \<Rightarrow> v | None \<Rightarrow> averageScore (stats s))"
  by (simp add: updateStats_def spread_stats_def)

section \<open>Creating a session\<close>

text \<open>
  C8. \<^verbatim>\<open>createSession(draft)\<close> issues one POST. On success the returned Session becomes
  the current Session and is put in front of the known list. On every failure (the request
  rejects, the response is not ok, or its body does not decode) the error message is
  rethrown and stored in the error slot, and the current Session and the list are as before.
\<close>

theorem createSession_success_or_unchanged:
  "requests (createSession d r) = [PostSessions d]
   \<and> (case result (createSession d r) of
        Inr x \<Rightarrow>
          r = Resolves True (Inr x)
          \<and> currentSession (commit s (dispatched (createSession d r))) = Some x
          \<and> sessions (commit s (dispatched (createSession d r))) = x # sessions s
      | Inl msg \<Rightarrow>
          r \<noteq> Resolves True (Inr x')
          \<and> error (commit s (dispatched (createSession d r))) = Some msg
          \<and> currentSession (commit s (dispatched (createSession d r))) = currentSession s
          \<and> sessions (commit s (dispatched (createSession d r))) = sessions s)"
  by (cases r) (auto simp: createSession_def commit_def split: sum.splits)

section \<open>Starting a tracking run\<close>

lemma startTracking_request:
  "requests (startTracking s r) = [PostTrackingStart (selectedSport s) (settings s)]"
  by (cases r) (simp_all add: startTracking_def)

lemma startTracking_dispatches_one:
  "\<exists>a. dispatched (startTracking s r) = [a] \<and> a \<noteq> RESET_STATS"
  by (cases r) (simp_all add: startTracking_def)

text \<open>
  C3, as the code has it. \<^verbatim>\<open>startTracking()\<close> checks nothing before the call: whatever
  the current Session is, it issues exactly one \<^verbatim>\<open>POST /api/tracking/start\<close>. When the
  response is ok it dispatches the single action that sets the tracking flag and resolves
  to \<^verbatim>\<open>true\<close>; otherwise the error message is stored and rethrown and the tracking flag
  of the store (\<open>s'\<close>, the store when the call completes) is untouched.
\<close>

theorem startTracking_no_precondition:
  "requests (startTracking s r) = [PostTrackingStart (selectedSport s) (settings s)]
   \<and> dispatched (startTracking s (Resolves True b)) = [SET_TRACKING True]
   \<and> result (startTracking s (Resolves True b)) = Inr True
   \<and> isTracking (commit s' (dispatched (startTracking s (Resolves True b))))
   \<and> (case result (startTracking s r) of
        Inr v \<Rightarrow> v \<and> (\<exists>body. r = Resolves True body)
      | Inl msg \<Rightarrow>
          error (commit s' (dispatched (startTracking s r))) = Some msg
          \<and> isTracking (commit s' (dispatched (startTracking s r))) = isTracking s')"
  by (cases r) (auto simp: startTracking_def commit_def split: sum.splits)

text \<open>
  C3, as the specification states it, fails: from the initial store, which has no current
  Session, the call is not rejected; the request goes out and tracking is switched on.
\<close>

theorem startTracking_without_session_counterexample:
  "currentSession initialState = None
   \<and> requests (startTracking initialState (Resolves True (Inr ())))
       = [PostTrackingStart ''basketball'' initialSettings]
   \<and> result (startTracking initialState (Resolves True (Inr ()))) = Inr True
   \<and> isTracking (commit initialState
        (dispatched (startTracking initialState (Resolves True (Inr ())))))"
  by (simp add: startTracking_def commit_def initialState_def)

section \<open>Doubles that are exact\<close>

lemma bits_le_iff: "bits n \<le> k \<longleftrightarrow> n < 2 ^ k"
proof (induction k arbitrary: n)
  case 0
  show ?case by (subst bits.simps) simp
next
  case (Suc k)
  have "bits n \<le> Suc k \<longleftrightarrow> n = 0 \<or> bits (n div 2) \<le> k"
    by (subst bits.simps) simp
  also have "\<dots> \<longleftrightarrow> n = 0 \<or> n div 2 < 2 ^ k" by (simp add: Suc.IH)
  also have "\<dots> \<longleftrightarrow> n < 2 ^ Suc k" by auto
  finally show ?case .
qed

lemma exponent_less:
  assumes "0 < a" and "a < 2 powi k"
  shows "exponent a < k"
proof (cases "1 \<le> a")
  case True
  with assms(2) have "(1::rat) < 2 powi k" by simp
  have kpos: "0 < k"
  proof (rule ccontr)
    assume "\<not> 0 < k"
    then have "k = - int (nat (- k))" by simp
    then have "(2::rat) powi k = 1 / 2 ^ nat (- k)"
      by (metis power_int_minus power_int_of_nat inverse_eq_divide)
    also have "\<dots> \<le> 1" by (simp add: field_simps)
    finally show False using \<open>(1::rat) < 2 powi k\<close> by simp
  qed
  then have k: "k = int (nat k)" by simp
  have "a < 2 ^ nat k" using assms(2) k by (metis power_int_of_nat)
  moreover have "of_int \<lfloor>a\<rfloor> \<le> a" by simp
  ultimately have "(of_int \<lfloor>a\<rfloor> :: rat) < 2 ^ nat k" by linarith
  then have "\<lfloor>a\<rfloor> < 2 ^ nat k"
    by (metis of_int_less_iff of_int_numeral of_int_power)
  then have "nat \<lfloor>a\<rfloor> < 2 ^ nat k"
    using True by (simp add: nat_less_iff)
  then have "bits (nat \<lfloor>a\<rfloor>) \<le> nat k" by (simp add: bits_le_iff)
  with True kpos show ?thesis by (simp add: exponent_def)
next
  case False
  show ?thesis
  proof (cases "0 < k")
    case True
    with False show ?thesis by (simp add: exponent_def)
  next
    case kn: False
    define j where "j = nat (- k)"
    have k: "k = - int j" using kn by (simp add: j_def)
    have "a < 1 / 2 ^ j" using assms(2) unfolding k
      by (simp add: power_int_minus field_simps)
    then have "2 ^ j < 1 / a" using assms(1)
      by (simp add: field_simps)
    then have "(2 ^ j :: rat) < of_int \<lceil>1 / a\<rceil>"
      by (meson le_of_int_ceiling order_less_le_trans)
    then have "2 ^ j < \<lceil>1 / a\<rceil>"
      by (metis of_int_less_iff of_int_numeral of_int_power)
    then have "\<not> nat (\<lceil>1 / a\<rceil> - 1) < 2 ^ j"
      by (simp add: nat_less_iff)
    then have "\<not> bits (nat (\<lceil>1 / a\<rceil> - 1)) \<le> j" by (simp add: bits_le_iff)
    with False show ?thesis by (simp add: exponent_def k)
  qed
qed

lemma round_even_of_int: "round_even (of_int m) = m"
  by (simp add: round_even_def)

text \<open>
  A number with at most 53 significant bits and a step of at least \<open>2 powi - 1074\<close>, below
  the overflow threshold, is a double: rounding leaves it as it is.
\<close>

lemma double_exact:
  assumes x: "x = of_int n * 2 powi q" and n: "\<bar>n\<bar> < 2 ^ 53" and q: "- 1074 \<le> q"
    and fin: "\<bar>x\<bar> < 2 powi 1024"
  shows "double x = Num x"
proof (cases "x = 0")
  case True
  then show ?thesis by (simp add: double_def)
next
  case False
  define a where "a = \<bar>x\<bar>"
  have a: "a = of_int \<bar>n\<bar> * 2 powi q"
    by (simp add: a_def x abs_mult)
  have apos: "0 < a" using False by (simp add: a_def)
  have "of_int \<bar>n\<bar> < (2 ^ 53 :: rat)"
    using n by (metis of_int_less_iff of_int_numeral of_int_power)
  then have "a < 2 ^ 53 * 2 powi q"
    unfolding a by (simp add: mult_strict_right_mono)
  also have "\<dots> = 2 powi (q + 53)"
    by (simp add: power_int_add)
  finally have "exponent a < q + 53" using apos by (intro exponent_less)
  define q' where "q' = max (exponent a - 52) (- 1074)"
  have q': "q' \<le> q" using \<open>exponent a < q + 53\<close> q by (simp add: q'_def)
  define d where "d = nat (q - q')"
  have "(2::rat) powi q = 2 powi (q' + int d)" using q' by (simp add: d_def)
  also have "\<dots> = 2 powi q' * 2 ^ d" by (simp add: power_int_add)
  finally have split: "(2::rat) powi q = 2 powi q' * 2 ^ d" .
  have "a / 2 powi q' = of_int \<bar>n\<bar> * 2 ^ d"
    unfolding a split by simp
  also have "\<dots> = of_int (\<bar>n\<bar> * 2 ^ d)" by simp
  finally have m: "a / 2 powi q' = of_int (\<bar>n\<bar> * 2 ^ d)" .
  have r: "of_int (round_even (a / 2 powi q')) * 2 powi q' = a"
    unfolding m round_even_of_int unfolding a split by simp
  have "\<not> 2 powi 1024 \<le> a" using fin by (simp add: a_def)
  then show ?thesis
    using False r unfolding double_def Let_def a_def[symmetric] q'_def[symmetric]
    by (auto simp: a_def)
qed

lemma double_of_nat: "k < 2 ^ 53 \<Longrightarrow> double (of_nat k) = Num (of_nat k)"
proof -
  assume k: "k < 2 ^ 53"
  have "(of_nat k :: rat) < 2 ^ 53"
    using k by (metis of_nat_less_iff of_nat_numeral of_nat_power)
  also have "\<dots> < (2::rat) powi 1024" by simp
  finally have "\<bar>of_nat k :: rat\<bar> < 2 powi 1024" by simp
  moreover have "\<bar>int k\<bar> < 2 ^ 53" using k by (simp add: nat_less_iff flip: nat_int)
  ultimately show ?thesis
    using double_exact[of "of_nat k" "int k" 0] by simp
qed

lemma double_zero: "double 0 = Num 0"
  by (simp add: double_def)

lemma double_small:
  "double 1 = Num 1" "double 2 = Num 2" "double 50 = Num 50" "double 100 = Num 100"
  "double (1 / 2) = Num (1 / 2)" "double (3 / 4) = Num (3 / 4)"
  "double (5 / 4) = Num (5 / 4)" "double (5 / 8) = Num (5 / 8)"
  using double_exact[of 1 1 0] double_exact[of 2 2 0] double_exact[of 50 50 0]
    double_exact[of 100 100 0] double_exact[of "1 / 2" 1 "- 1"]
    double_exact[of "3 / 4" 3 "- 2"] double_exact[of "5 / 4" 5 "- 2"]
    double_exact[of "5 / 8" 5 "- 3"]
  by simp_all

text \<open>Counting is exact: one more than a count below \<open>2 ^ 53\<close> is the next count.\<close>

lemma js_add_count:
  "Suc k < 2 ^ 53 \<Longrightarrow> js_add (Num (of_nat k)) (Num 1) = Num (of_nat (Suc k))"
  using double_of_nat[of "Suc k"] by (simp add: js_add_def add.commute)

section \<open>Statistics aggregation\<close>

text \<open>
  When the tracker renders between two detected actions, each is counted: the stats are
  those of both.
\<close>

lemma frames_rendered_one_by_one:
  "map_sum id (stats \<circ> store) (app_run True initialApp
      [Provider Mount, Provider (Opened 0), TrackerMounts,
       Provider (Message 0 (Some (JObj [(''type'', JStr ''action_detected''),
          (''data'', JObj [(''action'', JStr ''shot''), (''successful'', JBool True),
                           (''confidence'', JNum (3 / 4))])]))),
       Render,
       Provider (Message 0 (Some (JObj [(''type'', JStr ''action_detected''),
          (''data'', JObj [(''action'', JStr ''pass''), (''successful'', JBool False),
                           (''confidence'', JNum (1 / 2))])]))),
       Render])
   = Inr \<lparr>totalActions = Num 2, successfulActions = Num 1, successRate = Num 50,
          averageScore = Num (5 / 8)\<rparr>"
  by (simp add: initialApp_def initialProvider_def initialState_def initialStats_def
      initialPerformanceData_def connect_def onopen_def onmessage_def effect_def
      onLastMessage_def handleActionDetected_def newAction_of_def is_successful_def
      updateStats_def spread_stats_def performanceUpdate_def js_add_def js_mul_def
      js_div_def double_small double_zero)

text \<open>
  C1 fails on the code. Two detected actions arrive on the open socket before the tracker
  renders: the second replaces the first in \<^verbatim>\<open>lastMessage\<close>, the tracker's effect runs once,
  and the store ends with one action counted, none successful, and the second confidence
  as the average; the tracker's own counters show one action and no success.
\<close>

theorem two_frames_one_render_count_one:
  "map_sum id (stats \<circ> store) (app_run True initialApp
      [Provider Mount, Provider (Opened 0), TrackerMounts,
       Provider (Message 0 (Some (JObj [(''type'', JStr ''action_detected''),
          (''data'', JObj [(''action'', JStr ''shot''), (''successful'', JBool True),
                           (''confidence'', JNum (3 / 4))])]))),
       Provider (Message 0 (Some (JObj [(''type'', JStr ''action_detected''),
          (''data'', JObj [(''action'', JStr ''pass''), (''successful'', JBool False),
                           (''confidence'', JNum (1 / 2))])]))),
       Render])
   = Inr \<lparr>totalActions = Num 1, successfulActions = Num 0, successRate = Num 0,
          averageScore = Num (1 / 2)\<rparr>
   \<and> map_sum id tracker (app_run True initialApp
      [Provider Mount, Provider (Opened 0), TrackerMounts,
       Provider (Message 0 (Some (JObj [(''type'', JStr ''action_detected''),
          (''data'', JObj [(''action'', JStr ''shot''), (''successful'', JBool True),
                           (''confidence'', JNum (3 / 4))])]))),
       Provider (Message 0 (Some (JObj [(''type'', JStr ''action_detected''),
          (''data'', JObj [(''action'', JStr ''pass''), (''successful'', JBool False),
                           (''confidence'', JNum (1 / 2))])]))),
       Render])
   = Inr (Some \<lparr>streak = 0,
                 lastAction = Some \<lparr>action_type = Some (JStr ''pass''),
                                    successful = Some (JBool False),
                                    confidence = Some (JNum (1 / 2)),
                                    details = JObj []\<rparr>,
                 sessionActions = 1, sessionSuccesses = 0\<rparr>)"
  by (simp add: initialApp_def initialProvider_def initialState_def initialStats_def
      initialPerformanceData_def connect_def onopen_def onmessage_def effect_def
      onLastMessage_def handleActionDetected_def newAction_of_def is_successful_def
      updateStats_def spread_stats_def performanceUpdate_def js_add_def js_mul_def
      js_div_def double_small double_zero)

section \<open>Stats across tracking runs\<close>

text \<open>
  C7, as the code has it. \<^verbatim>\<open>startTracking()\<close> leaves the stats of the store as they are,
  whatever the response. The reducer has an action that sets them to their initial zero
  values, and no operation of the store dispatches it. The stats are part of the store's
  state, not of a Session: updating them changes neither the current Session nor the list.
\<close>

theorem startTracking_keeps_stats:
  "stats (commit s' (dispatched (startTracking s r))) = stats s'
   \<and> stats (sessionReducer s' RESET_STATS) = initialStats
   \<and> RESET_STATS \<notin> set (dispatched (startTracking s r))
   \<and> RESET_STATS \<notin> set (dispatched (stopTracking r))
   \<and> RESET_STATS \<notin> set (dispatched (createSession d r1))
   \<and> RESET_STATS \<notin> set (dispatched (getSessions r2))
   \<and> RESET_STATS \<notin> set (dispatched (getSession i r1))
   \<and> currentSession (updateStats p s') = currentSession s'
   \<and> sessions (updateStats p s') = sessions s'"
proof -
  have "stats (commit s' (dispatched (startTracking s r))) = stats s'"
    and "RESET_STATS \<notin> set (dispatched (startTracking s r))"
    and "RESET_STATS \<notin> set (dispatched (stopTracking r))"
    by (cases r; simp add: startTracking_def stopTracking_def commit_def)+
  moreover have "RESET_STATS \<notin> set (dispatched (createSession d r1))"
    and "RESET_STATS \<notin> set (dispatched (getSession i r1))"
    by (cases r1; simp add: createSession_def getSession_def split: sum.splits)+
  moreover have "RESET_STATS \<notin> set (dispatched (getSessions r2))"
    by (cases r2; simp add: getSessions_def split: sum.splits)
  ultimately show ?thesis by (simp add: updateStats_def)
qed

text \<open>
  C7, as the specification states it, fails: with the stats of two detected actions in the
  store, a successful \<^verbatim>\<open>startTracking()\<close> switches tracking on and leaves them in place.
\<close>

theorem startTracking_old_stats_counterexample:
  "stats (commit
      (updateStats \<lparr>p_totalActions = Some (Num 2), p_successfulActions = Some (Num 1),
                    p_successRate = Some (Num 50), p_averageScore = Some (Num (3 / 4))\<rparr>
         initialState)
      (dispatched (startTracking
         (updateStats \<lparr>p_totalActions = Some (Num 2), p_successfulActions = Some (Num 1),
                       p_successRate = Some (Num 50), p_averageScore = Some (Num (3 / 4))\<rparr>
            initialState)
         (Resolves True (Inr ())))))
     = \<lparr>totalActions = Num 2, successfulActions = Num 1, successRate = Num 50,
        averageScore = Num (3 / 4)\<rparr>
   \<and> isTracking (commit
      (updateStats \<lparr>p_totalActions = Some (Num 2), p_successfulActions = Some (Num 1),
                    p_successRate = Some (Num 50), p_averageScore = Some (Num (3 / 4))\<rparr>
         initialState)
      (dispatched (startTracking
         (updateStats \<lparr>p_totalActions = Some (Num 2), p_successfulActions = Some (Num 1),
                       p_successRate = Some (Num 50), p_averageScore = Some (Num (3 / 4))\<rparr>
            initialState)
         (Resolves True (Inr ())))))"
  by (simp add: startTracking_def commit_def updateStats_def spread_stats_def)

section \<open>Reconnecting\<close>

text \<open>
  As the file is written, with no global \<^verbatim>\<open>WS_URL\<close> declared, the first render raises and
  nothing else happens. The runs below are those of a page that declares it.
\<close>

lemma run_undeclared:
  "run False s (e # es) = Inl ReferenceError"
  "app_run False a (t # ts) = Inl ReferenceError"
  by simp_all

text \<open>
  Without a consumer calling \<^verbatim>\<open>connect\<close> (no event but \<open>Connect\<close> is excluded by
  \<open>automatic\<close>), every socket and every timer holds the counter of the first render: the
  timer calls the \<^verbatim>\<open>connect\<close> that scheduled it.
\<close>

lemma step_keeps_first_render:
  assumes "automatic e" and "set (created s) \<union> set (timers s) \<subseteq> {0}"
    and "step True s e = Inr s'"
  shows "set (created s') \<union> set (timers s') \<subseteq> {0}"
proof (cases e)
  case (Closed ws code)
  show ?thesis
  proof (cases "ws < length (created s)")
    case True
    then have "created s ! ws \<in> set (created s)" by simp
    with assms(2) have "created s ! ws = 0" by auto
    with assms(2,3) True Closed show ?thesis
      by (auto simp: onclose_def Let_def split: if_splits)
  next
    case False
    with assms(2,3) Closed show ?thesis by auto
  qed
next
  case TimerFires
  with assms(2,3) show ?thesis
    by (cases "timers s") (auto simp: timeout_def connect_def)
qed (use assms in \<open>auto simp: connect_def onopen_def onmessage_def onerror_def disconnect_def
       sendMessage_def split: option.splits if_splits\<close>)

lemma run_keeps_first_render:
  "list_all automatic es \<Longrightarrow> set (created s) \<union> set (timers s) \<subseteq> {0} \<Longrightarrow>
   run True s es = Inr s' \<Longrightarrow> set (created s') \<union> set (timers s') \<subseteq> {0}"
proof (induction es arbitrary: s)
  case Nil
  then show ?case by simp
next
  case (Cons e es)
  from Cons.prems(3) obtain s1 where s1: "step True s e = Inr s1"
    and rest: "run True s1 es = Inr s'"
    by (auto split: sum.splits)
  from Cons.prems(1) have "automatic e" and "list_all automatic es" by simp_all
  from step_keeps_first_render[OF \<open>automatic e\<close> Cons.prems(2) s1]
  have "set (created s1) \<union> set (timers s1) \<subseteq> {0}" .
  from Cons.IH[OF \<open>list_all automatic es\<close> this rest] show ?case .
qed

text \<open>
  So the guard of the close handler never sees the counter grow: however many closures
  came before, an abnormal closure of a socket of the automatic chain schedules one more
  attempt.
\<close>

lemma automatic_reconnect_unbounded:
  assumes "list_all automatic es" and "run True initialProvider es = Inr s"
    and "ws < length (created s)" and "code \<noteq> 1000"
  shows "\<exists>s'. step True s (Closed ws code) = Inr s' \<and> scheduled s' = scheduled s + 1"
proof -
  have "set (created s) \<union> set (timers s) \<subseteq> {0}"
    using assms(1) _ assms(2) by (rule run_keeps_first_render) (simp add: initialProvider_def)
  moreover have "created s ! ws \<in> set (created s)" using assms(3) by simp
  ultimately have "created s ! ws = 0" by auto
  with assms(3,4) show ?thesis
    by (simp add: onclose_def scheduled_def MAX_RECONNECT_ATTEMPTS_def Let_def)
qed

text \<open>
  C2 fails on the code. In a page that declares \<^verbatim>\<open>WS_URL\<close>: after the mount, six connection
  attempts in a row fail (an error event, then a close event with code 1006), each timer
  firing in between. Six reconnect attempts have been scheduled, the sixth is pending, the
  counter is 5, and the connection error is the one every transport error sets.
\<close>

theorem sixth_reconnect_scheduled:
  "run True initialProvider
      [Mount, Errored 0, Closed 0 1006, TimerFires, Errored 1, Closed 1 1006, TimerFires,
       Errored 2, Closed 2 1006, TimerFires, Errored 3, Closed 3 1006, TimerFires,
       Errored 4, Closed 4 1006, TimerFires, Errored 5, Closed 5 1006]
   = Inr \<lparr>socket = None, isConnected = False, reconnectAttempts = 5, lastMessage = JNull,
          connectionError = Some ''Failed to connect to tracking service'',
          created = [0, 0, 0, 0, 0, 0], timers = [0],
          calls = [NewWebSocket, SetTimeout 3000, NewWebSocket, SetTimeout 3000,
                   NewWebSocket, SetTimeout 3000, NewWebSocket, SetTimeout 3000,
                   NewWebSocket, SetTimeout 3000, NewWebSocket, SetTimeout 3000]\<rparr>"
  by (simp add: connect_def onclose_def onerror_def timeout_def initialProvider_def
      MAX_RECONNECT_ATTEMPTS_def RECONNECT_DELAY_def)

section \<open>Disconnecting\<close>

text \<open>
  C5, as the code has it. \<^verbatim>\<open>disconnect()\<close> asks the socket its callback holds, if there is
  one, to close with code 1000, and does nothing else: the state, the pending timers and
  the connected flag are as before (the flag falls when the close event arrives). Without
  a socket the call changes nothing, and a second call only repeats the request. A close
  event with code 1000 schedules no reconnect attempt.
\<close>

theorem disconnect_only_requests_closure:
  "calls (disconnect captured s)
     = (case captured of
          Some ws \<Rightarrow> calls s @ [SocketClose ws 1000 ''Manual disconnect'']
        | None \<Rightarrow> calls s)
   \<and> (disconnect captured s)\<lparr>calls := calls s\<rparr> = s
   \<and> (disconnect captured (disconnect captured s))\<lparr>calls := calls s\<rparr> = s
   \<and> disconnect None s = s
   \<and> timers (disconnect captured s) = timers s
   \<and> isConnected (disconnect captured s) = isConnected s
   \<and> scheduled (onclose c 1000 s) = scheduled s
   \<and> timers (onclose c 1000 s) = timers s
   \<and> \<not> isConnected (onclose c 1000 s)
   \<and> socket (onclose c 1000 s) = None"
  by (simp add: disconnect_def onclose_def scheduled_def split: option.splits)

text \<open>
  C5, as the specification states it, fails. In a page that declares \<^verbatim>\<open>WS_URL\<close>: the timer
  scheduled by a failed connection attempt is still pending after \<^verbatim>\<open>disconnect()\<close> and
  constructs a new socket when it fires; and right after \<^verbatim>\<open>disconnect()\<close> on an open
  connection the connected flag is still set.
\<close>

theorem disconnect_timer_counterexample:
  "run True initialProvider [Mount, Errored 0, Closed 0 1006, Disconnect None, TimerFires]
   = Inr \<lparr>socket = None, isConnected = False, reconnectAttempts = 1, lastMessage = JNull,
          connectionError = Some ''Failed to connect to tracking service'',
          created = [0, 0], timers = [],
          calls = [NewWebSocket, SetTimeout 3000, NewWebSocket]\<rparr>
   \<and> run True initialProvider [Mount, Opened 0, Disconnect (Some 0)]
   = Inr \<lparr>socket = Some 0, isConnected = True, reconnectAttempts = 0, lastMessage = JNull,
          connectionError = None, created = [0], timers = [],
          calls = [NewWebSocket, SocketClose 0 1000 ''Manual disconnect'']\<rparr>"
  by (simp add: connect_def onclose_def onopen_def onerror_def timeout_def disconnect_def
      initialProvider_def MAX_RECONNECT_ATTEMPTS_def RECONNECT_DELAY_def)

section \<open>Inbound frames\<close>









section \<open>Sending\<close>

lemma hexval_hexdigit: "n < 16 \<Longrightarrow> hexval (hexdigit n) = Some n"
  unfolding hexdigit_def hexval_def
  by (simp add: Let_def)

lemma cons_result_Some [simp]: "cons_result c (Some (s, r)) = Some (c # s, r)"
  by (simp add: cons_result_def)

lemma parse_escape_char:
  "parse_chars (escape_char c @ cs) = cons_result c (parse_chars cs)"
proof -
  consider "c = CHR 0x22" | "c = CHR 0x5C" | "c = CHR 0x08" | "c = CHR 0x0C" | "c = CHR 0x0A"
    | "c = CHR 0x0D" | "c = CHR 0x09"
    | "c \<notin> {CHR 0x22, CHR 0x5C, CHR 0x08, CHR 0x0C, CHR 0x0A, CHR 0x0D, CHR 0x09}" "(of_char c :: nat) < 32"
    | "c \<notin> {CHR 0x22, CHR 0x5C, CHR 0x08, CHR 0x0C, CHR 0x0A, CHR 0x0D, CHR 0x09}" "\<not> (of_char c :: nat) < 32"
    by blast
  then show ?thesis
  proof cases
    case 8
    let ?n = "of_char c :: nat"
    have d1: "?n div 16 < 16" and d2: "?n mod 16 < 16" using 8(2) by simp_all
    have v: "((0 * 16 + 0) * 16 + ?n div 16) * 16 + ?n mod 16 = ?n" by simp
    have e: "escape_char c = [CHR 0x5C, CHR ''u'', CHR ''0'', CHR ''0'',
         hexdigit (?n div 16), hexdigit (?n mod 16)]"
      using 8 by (simp add: escape_char_def)
    have h0: "hexval CHR ''0'' = Some 0" by (simp add: hexval_def)
    have "hex4 CHR ''0'' CHR ''0'' (hexdigit (?n div 16)) (hexdigit (?n mod 16)) = Some ?n"
      by (simp add: hex4_def h0 hexval_hexdigit[OF d1] hexval_hexdigit[OF d2])
    then show ?thesis
      unfolding e using 8(2) by simp
  next
    case 9
    then show ?thesis by (simp add: escape_char_def)
  qed (simp_all add: escape_char_def unescape_def)
qed

lemma parse_chars_escaped:
  "parse_chars (concat (map escape_char s) @ CHR 0x22 # r) = Some (s, r)"
  by (induction s) (simp_all add: parse_escape_char)

lemma parse_string_quote: "parse_string (quote s @ r) = Some (s, r)"
  by (simp add: parse_string_def quote_def parse_chars_escaped)

lemma skip_ws_quote [simp]: "skip_ws (quote s @ r) = quote s @ r"
  by (simp add: skip_ws_def quote_def is_ws_def)

lemma skip_ws_punct [simp]:
  "skip_ws (CHR '':'' # r) = CHR '':'' # r"
  "skip_ws (CHR '','' # r) = CHR '','' # r"
  "skip_ws (CHR ''}'' # r) = CHR ''}'' # r"
  "skip_ws (CHR ''{'' # r) = CHR ''{'' # r"
  "skip_ws [] = []"
  by (simp_all add: skip_ws_def is_ws_def)

lemma set_prop_new: "k \<notin> fst ` set m \<Longrightarrow> set_prop k v m = m @ [(k, v)]"
  by (simp add: set_prop_def)

lemma parse_members_last:
  "k \<notin> fst ` set acc \<Longrightarrow>
   parse_members acc (quote k @ CHR '':'' # quote v @ CHR ''}'' # r) = Some (acc @ [(k, v)], r)"
  by (subst parse_members.simps) (simp add: parse_string_quote set_prop_new)

lemma parse_members_next:
  "k \<notin> fst ` set acc \<Longrightarrow>
   parse_members acc (quote k @ CHR '':'' # quote v @ CHR '','' # r)
     = parse_members (acc @ [(k, v)]) r"
  by (subst parse_members.simps) (simp add: parse_string_quote set_prop_new)

lemma parse_members_members:
  "kvs \<noteq> [] \<Longrightarrow> distinct (map fst (acc @ kvs)) \<Longrightarrow>
   parse_members acc (members kvs @ CHR ''}'' # r) = Some (acc @ kvs, r)"
proof (induction kvs arbitrary: acc rule: members.induct)
  case 1
  then show ?case by simp
next
  case (2 k v)
  then have "k \<notin> fst ` set acc" by auto
  then show ?case using parse_members_last[of k acc v r] by simp
next
  case (3 k v kv kvs)
  then have new: "k \<notin> fst ` set acc" by auto
  have "distinct (map fst ((acc @ [(k, v)]) @ kv # kvs))" using "3.prems"(2) by simp
  then have "parse_members (acc @ [(k, v)]) (members (kv # kvs) @ CHR ''}'' # r)
               = Some ((acc @ [(k, v)]) @ kv # kvs, r)"
    by (intro "3.IH") simp_all
  then show ?case using parse_members_next[OF new, of v "members (kv # kvs) @ CHR ''}'' # r"]
    by simp
qed

lemma members_first: "kvs \<noteq> [] \<Longrightarrow> \<exists>r. members kvs = CHR 0x22 # r"
  by (induction kvs rule: members.induct) (simp_all add: quote_def)

lemma JSON_roundtrip:
  "distinct (map fst m) \<Longrightarrow> JSON_parse (JSON_stringify m) = Some m"
proof (cases m)
  case Nil
  then show ?thesis by (simp add: JSON_parse_def JSON_stringify_def)
next
  case (Cons kv kvs)
  assume d: "distinct (map fst m)"
  from Cons obtain r where r: "members m = CHR 0x22 # r"
    using members_first[of m] by auto
  have q: "skip_ws (CHR 0x22 # r @ ''}'') = CHR 0x22 # r @ ''}''"
    by (simp add: skip_ws_def is_ws_def)
  have "parse_members [] (members m @ CHR ''}'' # []) = Some ([] @ m, [])"
    using Cons d by (intro parse_members_members) simp_all
  then show ?thesis
    by (simp add: JSON_parse_def JSON_stringify_def r q)
qed

lemma sendMessage_not_connected:
  "sendMessage None c m throws s = (False, s)"
  "sendMessage sock False m throws s = (False, s)"
  by (simp_all add: sendMessage_def split: option.splits)

lemma sendMessage_connected:
  "sendMessage (Some w) True m throws s
     = (\<not> throws, s\<lparr>calls := calls s @ [SocketSend w (JSON_stringify m)]\<rparr>)"
  by (simp add: sendMessage_def)

text \<open>
  C4 fails on the code. In a page that declares \<^verbatim>\<open>WS_URL\<close>: the socket opens, and a
  consumer takes \<^verbatim>\<open>sendMessage\<close> from that render (socket 0, connected). The socket then
  closes, as it may while the consumer awaits \<^verbatim>\<open>startTracking()\<close>; the provider is
  disconnected. The consumer now calls the \<^verbatim>\<open>sendMessage\<close> it holds: \<^verbatim>\<open>send\<close> is called on
  the closed socket and the result is \<^verbatim>\<open>true\<close>.
\<close>

theorem send_after_close_returns_true:
  "run True initialProvider [Mount, Opened 0]
   = Inr \<lparr>socket = Some 0, isConnected = True, reconnectAttempts = 0, lastMessage = JNull,
          connectionError = None, created = [0], timers = [], calls = [NewWebSocket]\<rparr>
   \<and> run True initialProvider [Mount, Opened 0, Closed 0 1006]
   = Inr \<lparr>socket = None, isConnected = False, reconnectAttempts = 0, lastMessage = JNull,
          connectionError = None, created = [0], timers = [0],
          calls = [NewWebSocket, SetTimeout 3000]\<rparr>
   \<and> sendMessage (Some 0) True [(''type'', ''camera_control''), (''action'', ''start'')] False
       \<lparr>socket = None, isConnected = False, reconnectAttempts = 0, lastMessage = JNull,
        connectionError = None, created = [0], timers = [0],
        calls = [NewWebSocket, SetTimeout 3000]\<rparr>
   = (True,
      \<lparr>socket = None, isConnected = False, reconnectAttempts = 0, lastMessage = JNull,
       connectionError = None, created = [0], timers = [0],
       calls = [NewWebSocket, SetTimeout 3000,
                SocketSend 0
                  (JSON_stringify [(''type'', ''camera_control''), (''action'', ''start'')])]\<rparr>)"
  by (simp add: connect_def onopen_def onclose_def sendMessage_def initialProvider_def
      MAX_RECONNECT_ATTEMPTS_def RECONNECT_DELAY_def)

end
